theory Spec2Isabelle
  imports Complex_Main
begin

section \<open>Data model (database.py)\<close>

text \<open>
  The SQLAlchemy models of \<^verbatim>\<open>database.py\<close> as records, one per table. Field names
  carry a table prefix because record fields share one name space. A column declared
  \<^verbatim>\<open>nullable=False\<close> has a plain type, a nullable column an \<open>option\<close> type:
  the rows of the store are rows the schema admits, and an attempt to write
  \<^verbatim>\<open>None\<close> into a non-nullable column is an \<open>IntegrityError\<close> at commit
  (see the handlers below). \<^verbatim>\<open>Float\<close> columns are only stored and read back,
  never computed with, so they are modelled as \<open>real\<close>.

  The class \<^verbatim>\<open>Token\<close> assigns its JSON column to the attribute name
  \<^verbatim>\<open>metadata\<close>, which SQLAlchemy's declarative base reserves for the table
  registry: as written the module raises on import. The model is of the code with that
  one attribute renamed so that the module loads; the column \<open>t_metadata\<close> is then
  in the table, and the expression \<^verbatim>\<open>token.metadata\<close> of \<^verbatim>\<open>server.py\<close> reads
  the registry object, not the column (see \<open>token_view\<close>).
\<close>

datatype json = JNull | JBool bool | JNum real | JStr string
  | JArr "json list" | JObj "(string \<times> json) list"

record user =
  u_id :: int
  u_username :: string
  u_password_hash :: string
  u_role :: string
  u_registered_by :: "int option"

record scene =
  s_id :: int
  s_name :: string
  s_thumbnail_path :: "string option"
  s_active :: bool
  s_owner_id :: int
  s_background_layer_id :: "int option"
  s_foreground_layer_id :: "int option"

record layer =
  l_id :: int
  l_scene_id :: int
  l_name :: string
  l_order_index :: int
  l_type :: string
  l_visible :: bool

record token =
  t_id :: int
  t_layer_id :: int
  t_image_path :: string
  t_x :: real
  t_y :: real
  t_scale :: real
  t_rotation :: real
  t_z_index :: int
  t_metadata :: "json option"

record drawing =
  d_id :: int
  d_layer_id :: int
  d_type :: string
  d_points :: json
  d_color :: string
  d_stroke_width :: real

record text_element =
  te_id :: int
  te_layer_id :: int
  te_x :: real
  te_y :: real
  te_text :: string
  te_font_size :: int
  te_color :: string
  te_style :: string

text \<open>
  The relational store: one list of rows per table, in the order the database returns
  them, and the database behind \<^verbatim>\<open>DATABASE_URL\<close>. PostgreSQL is the default of
  \<^verbatim>\<open>server.py\<close>; it enforces the \<^verbatim>\<open>ForeignKey\<close> constraints, the length of
  \<^verbatim>\<open>String(n)\<close> columns and the 32-bit range of \<^verbatim>\<open>Integer\<close> columns. SQLite
  enforces none of the three and holds integers of 64 bits.
\<close>

datatype backend = PostgreSQL | SQLite

record store =
  users :: "user list"
  scenes :: "scene list"
  layers :: "layer list"
  tokens :: "token list"
  drawings :: "drawing list"
  text_elements :: "text_element list"
  backend :: backend

text \<open>The exceptions the modelled code can raise: from the database at commit
  (\<open>IntegrityError\<close> for a NOT NULL, primary-key or foreign-key violation,
  \<open>DataError\<close> for a value that does not fit its column), from the driver
  (\<open>ValueError\<close>, \<open>OverflowError\<close>), from the unit of work
  (\<open>CircularDependencyError\<close>) and from \<^verbatim>\<open>jsonify\<close> (\<open>TypeError\<close>).\<close>

datatype error = IntegrityError | DataError | ValueError | OverflowError
  | CircularDependencyError | TypeError

subsection \<open>Queries\<close>

text \<open>\<^verbatim>\<open>Model.query.get(id)\<close>: the row with that primary key, or \<^verbatim>\<open>None\<close>;
  \<^verbatim>\<open>get(None)\<close> is \<^verbatim>\<open>None\<close>.\<close>

definition Scene_query_get :: "store \<Rightarrow> int \<Rightarrow> scene option" where
  "Scene_query_get s scene_id = find (\<lambda>sc. s_id sc = scene_id) (scenes s)"

definition Token_query_get :: "store \<Rightarrow> int option \<Rightarrow> token option" where
  "Token_query_get s token_id =
     (case token_id of None \<Rightarrow> None
      | Some i \<Rightarrow> find (\<lambda>t. t_id t = i) (tokens s))"


definition User_query_get :: "store \<Rightarrow> int \<Rightarrow> user option" where
  "User_query_get s user_id = find (\<lambda>u. u_id u = user_id) (users s)"

text \<open>\<^verbatim>\<open>User.query.filter_by(username=username).first()\<close>.\<close>

definition User_by_username :: "store \<Rightarrow> string \<Rightarrow> user option" where
  "User_by_username s username = find (\<lambda>u. u_username u = username) (users s)"

text \<open>The relationships \<^verbatim>\<open>scene.layers\<close>, \<^verbatim>\<open>layer.tokens\<close>,
  \<^verbatim>\<open>layer.drawings\<close> and \<^verbatim>\<open>layer.text_elements\<close>: the rows whose foreign key
  is the parent's id.\<close>

definition scene_layers :: "store \<Rightarrow> scene \<Rightarrow> layer list" where
  "scene_layers s sc = filter (\<lambda>l. l_scene_id l = s_id sc) (layers s)"

definition layer_tokens :: "store \<Rightarrow> layer \<Rightarrow> token list" where
  "layer_tokens s l = filter (\<lambda>t. t_layer_id t = l_id l) (tokens s)"

definition layer_drawings :: "store \<Rightarrow> layer \<Rightarrow> drawing list" where
  "layer_drawings s l = filter (\<lambda>d. d_layer_id d = l_id l) (drawings s)"

definition layer_text_elements :: "store \<Rightarrow> layer \<Rightarrow> text_element list" where
  "layer_text_elements s l = filter (\<lambda>e. te_layer_id e = l_id l) (text_elements s)"

section \<open>Requests, responses and broadcasts (server.py)\<close>

text \<open>What \<^verbatim>\<open>login_required\<close> and \<^verbatim>\<open>admin_required\<close> attach to the request
  from the decoded token: \<^verbatim>\<open>request.user_id\<close> and \<^verbatim>\<open>request.user_role\<close>.
  The role of the game master is the string \<^verbatim>\<open>'admin'\<close>.\<close>

record request_ctx =
  user_id :: int
  user_role :: string

text \<open>The dictionaries the routes build. In \<open>layer_data\<close> the three child
  collections are optional: \<open>None\<close> is a dictionary without the key. The value under
  \<^verbatim>\<open>'metadata'\<close> in a token dictionary is \<^verbatim>\<open>token.metadata\<close>, the registry
  object.\<close>

datatype py_object = MetaData_registry

record token_data =
  td_id :: int
  td_image_path :: string
  td_x :: real
  td_y :: real
  td_scale :: real
  td_rotation :: real
  td_z_index :: int
  td_metadata :: py_object

record drawing_data =
  dd_id :: int
  dd_type :: string
  dd_points :: json
  dd_color :: string
  dd_stroke_width :: real

record text_data =
  xd_id :: int
  xd_x :: real
  xd_y :: real
  xd_text :: string
  xd_font_size :: int
  xd_color :: string
  xd_style :: string

record layer_data =
  ld_id :: int
  ld_name :: string
  ld_order_index :: int
  ld_type :: string
  ld_visible :: bool
  ld_tokens :: "token_data list option"
  ld_drawings :: "drawing_data list option"
  ld_text_elements :: "text_data list option"

record scene_data =
  sd_id :: int
  sd_name :: string
  sd_thumbnail_path :: "string option"
  sd_active :: bool
  sd_layers :: "layer_data list"

record user_summary =
  us_id :: int
  us_username :: string
  us_role :: string

text \<open>A response is the pair (body, status) a Flask view returns. \<open>Aborted\<close> is the
  page Flask writes for \<^verbatim>\<open>abort(404)\<close>, raised by \<^verbatim>\<open>get_or_404\<close>, and
  \<open>Server_error\<close> the page it writes, with status 500, for an exception a view does
  not catch. Neither is a JSON document, so both differ from every \<open>Message\<close>.\<close>

datatype body =
    Message string
  | Aborted
  | Server_error error
  | Scene_detail scene_data
  | Scene_created string int string "string option" bool
  | Scene_activated string int string bool
  | Login_ok "string option" user_summary

type_synonym response = "body \<times> nat"

definition status :: "response \<Rightarrow> nat" where
  "status r = snd r"

subsection \<open>get_scene\<close>

definition token_view :: "token \<Rightarrow> token_data" where
  "token_view token =
     \<lparr>td_id = t_id token, td_image_path = t_image_path token, td_x = t_x token,
      td_y = t_y token, td_scale = t_scale token, td_rotation = t_rotation token,
      td_z_index = t_z_index token, td_metadata = MetaData_registry\<rparr>"

definition drawing_view :: "drawing \<Rightarrow> drawing_data" where
  "drawing_view drawing =
     \<lparr>dd_id = d_id drawing, dd_type = d_type drawing, dd_points = d_points drawing,
      dd_color = d_color drawing, dd_stroke_width = d_stroke_width drawing\<rparr>"

definition text_view :: "text_element \<Rightarrow> text_data" where
  "text_view text =
     \<lparr>xd_id = te_id text, xd_x = te_x text, xd_y = te_y text, xd_text = te_text text,
      xd_font_size = te_font_size text, xd_color = te_color text,
      xd_style = te_style text\<rparr>"

text \<open>The body of the loop over \<^verbatim>\<open>scene.layers\<close>: the five metadata keys always,
  the three child collections only under the \<^verbatim>\<open>if\<close>.\<close>

definition layer_view :: "request_ctx \<Rightarrow> store \<Rightarrow> layer \<Rightarrow> layer_data" where
  "layer_view req s layer =
     (let layer_data =
        \<lparr>ld_id = l_id layer, ld_name = l_name layer,
         ld_order_index = l_order_index layer, ld_type = l_type layer,
         ld_visible = l_visible layer,
         ld_tokens = None, ld_drawings = None, ld_text_elements = None\<rparr>
      in if l_type layer = ''player'' \<or> user_role req = ''admin''
         then layer_data
           \<lparr>ld_tokens := Some (map token_view (layer_tokens s layer)),
            ld_drawings := Some (map drawing_view (layer_drawings s layer)),
            ld_text_elements := Some (map text_view (layer_text_elements s layer))\<rparr>
         else layer_data)"

text \<open>\<^verbatim>\<open>jsonify\<close> serialises numbers, strings, lists and dictionaries. The registry
  object under \<^verbatim>\<open>'metadata'\<close> is none of these, so a response that holds a token
  dictionary makes \<^verbatim>\<open>jsonify\<close> raise \<open>TypeError\<close>.\<close>

definition holds_token :: "scene_data \<Rightarrow> bool" where
  "holds_token sd =
     list_ex (\<lambda>ld. case ld_tokens ld of None \<Rightarrow> False | Some ts \<Rightarrow> ts \<noteq> []) (sd_layers sd)"

definition jsonify_scene :: "scene_data \<Rightarrow> response" where
  "jsonify_scene sd =
     (if holds_token sd then (Server_error TypeError, 500) else (Scene_detail sd, 200))"

definition get_scene :: "request_ctx \<Rightarrow> store \<Rightarrow> int \<Rightarrow> response" where
  "get_scene req s scene_id =
     (case Scene_query_get s scene_id of
        None \<Rightarrow> (Aborted, 404)
      | Some scene \<Rightarrow>
          if user_role req \<noteq> ''admin'' \<and> \<not> s_active scene
          then (Message ''Scene not found'', 404)
          else jsonify_scene
                 \<lparr>sd_id = s_id scene, sd_name = s_name scene,
                  sd_thumbnail_path = s_thumbnail_path scene,
                  sd_active = s_active scene,
                  sd_layers = map (layer_view req s) (scene_layers s scene)\<rparr>)"

subsection \<open>The realtime hub\<close>

text \<open>The payloads of the three client events: the keys each handler reads with
  \<^verbatim>\<open>data.get\<close>, \<open>None\<close> for a key that is absent (or null). A key that is
  present holds a value of the kind its column stores: an integer, a finite number, a
  string of any length, any JSON value for \<open>points\<close>. \<open>dc_id\<close> and \<open>tc_id\<close> are
  the key \<^verbatim>\<open>'id'\<close>, which the handlers set before they broadcast.\<close>

record token_moved =
  tm_token_id :: "int option"
  tm_x :: "real option"
  tm_y :: "real option"
  tm_rotation :: "real option"
  tm_scale :: "real option"

record drawing_created =
  dc_layer_id :: "int option"
  dc_type :: "string option"
  dc_points :: "json option"
  dc_color :: "string option"
  dc_stroke_width :: "real option"
  dc_id :: "int option"

record text_created =
  tc_layer_id :: "int option"
  tc_x :: "real option"
  tc_y :: "real option"
  tc_text :: "string option"
  tc_font_size :: "int option"
  tc_color :: "string option"
  tc_style :: "string option"
  tc_id :: "int option"

datatype event_data =
    Token_moved_data token_moved
  | Drawing_created_data drawing_created
  | Text_created_data text_created
  | Scene_activated_data int string

type_synonym sid = string

text \<open>A delivered message: the receiving client, the event name and the data.
  \<^verbatim>\<open>socketio.emit(event, data, skip_sid=sid)\<close> sends to every connected client but
  \<open>sid\<close>; \<open>hub\<close> is the list of connected clients the SocketIO server keeps.\<close>

type_synonym message = "sid \<times> string \<times> event_data"

definition emit :: "sid list \<Rightarrow> string \<Rightarrow> event_data \<Rightarrow> sid option \<Rightarrow> message list" where
  "emit hub event data skip_sid =
     map (\<lambda>c. (c, event, data)) (filter (\<lambda>c. Some c \<noteq> skip_sid) hub)"

text \<open>What a view or handler leaves behind: its return value (a response for a route,
  the exception raised, if any, for an event handler), the store after it and the
  messages delivered. A commit that raises leaves the rows of the store as they
  were.\<close>

record 'r outcome =
  ret :: 'r
  db :: store
  emitted :: "message list"

subsection \<open>create_scene\<close>

text \<open>The route body under \<^verbatim>\<open>admin_required\<close>. \<open>name\<close> is
  \<^verbatim>\<open>data.get('name')\<close>; \<^verbatim>\<open>not name\<close> holds for a missing and for an empty name.

  The objects the route hands to the session: a new scene and the layers appended to
  \<^verbatim>\<open>scene.layers\<close>, with \<^verbatim>\<open>scene.background_layer\<close> and
  \<^verbatim>\<open>scene.foreground_layer\<close> given as positions in that list.\<close>

record new_layer =
  nl_name :: string
  nl_order_index :: int
  nl_type :: string
  nl_visible :: bool

record new_scene =
  ns_name :: string
  ns_owner_id :: int
  ns_layers :: "new_layer list"
  ns_background_layer :: "nat option"
  ns_foreground_layer :: "nat option"

text \<open>The flush at commit orders the INSERTs by the foreign keys between the new
  rows. A layer of \<^verbatim>\<open>scene.layers\<close> needs the scene's key for
  \<^verbatim>\<open>layers.scene_id\<close>, so the scene goes first; the scene needs the key of its
  background and foreground layer for \<^verbatim>\<open>scenes.background_layer_id\<close> and
  \<^verbatim>\<open>scenes.foreground_layer_id\<close>, so those layers go first. The relationships of
  \<^verbatim>\<open>database.py\<close> are declared without \<^verbatim>\<open>post_update\<close>, which would break
  such a cycle with a later UPDATE: when one of the two references points into the
  scene's own new layers there is no order, and the flush raises
  \<open>CircularDependencyError\<close> before any row is written.\<close>

definition insert_order_cycle :: "new_scene \<Rightarrow> bool" where
  "insert_order_cycle scene =
     ((case ns_background_layer scene of None \<Rightarrow> False
       | Some i \<Rightarrow> i < length (ns_layers scene))
      \<or> (case ns_foreground_layer scene of None \<Rightarrow> False
         | Some i \<Rightarrow> i < length (ns_layers scene)))"

text \<open>\<open>create_scene\<close> always builds such a cycle, so the branch after the test is
  the one its commit takes. A scene without the two references is inserted with its
  layers; \<open>new_scene_id\<close> and \<open>new_layer_ids\<close> are the keys the database assigns
  (one per layer), and the owner must exist where foreign keys are enforced.\<close>

definition commit_scene ::
  "store \<Rightarrow> int \<Rightarrow> int list \<Rightarrow> new_scene \<Rightarrow> error + store" where
  "commit_scene s new_scene_id new_layer_ids scene =
     (if insert_order_cycle scene then Inl CircularDependencyError
      else if backend s = PostgreSQL \<and> User_query_get s (ns_owner_id scene) = None
      then Inl IntegrityError
      else if new_scene_id \<in> set (map s_id (scenes s))
           \<or> length new_layer_ids \<noteq> length (ns_layers scene)
           \<or> \<not> distinct new_layer_ids
           \<or> set new_layer_ids \<inter> set (map l_id (layers s)) \<noteq> {}
      then Inl IntegrityError
      else Inr (s\<lparr>scenes := scenes s @
                     [\<lparr>s_id = new_scene_id, s_name = ns_name scene,
                       s_thumbnail_path = None, s_active = False,
                       s_owner_id = ns_owner_id scene,
                       s_background_layer_id = None, s_foreground_layer_id = None\<rparr>],
                   layers := layers s @
                     map (\<lambda>(i, l). \<lparr>l_id = i, l_scene_id = new_scene_id, l_name = nl_name l,
                                      l_order_index = nl_order_index l, l_type = nl_type l,
                                      l_visible = nl_visible l\<rparr>)
                         (zip new_layer_ids (ns_layers scene))\<rparr>))"

definition create_scene ::
  "request_ctx \<Rightarrow> int \<Rightarrow> int list \<Rightarrow> store \<Rightarrow> string option \<Rightarrow> response outcome" where
  "create_scene req new_scene_id new_layer_ids s name =
     (case name of
        None \<Rightarrow> \<lparr>ret = (Message ''Scene name is required'', 400), db = s, emitted = []\<rparr>
      | Some n \<Rightarrow>
          if n = [] then
            \<lparr>ret = (Message ''Scene name is required'', 400), db = s, emitted = []\<rparr>
          else
            let background_layer =
                  \<lparr>nl_name = ''Background'', nl_order_index = 0, nl_type = ''background'',
                   nl_visible = True\<rparr>;
                player_layer =
                  \<lparr>nl_name = ''Player'', nl_order_index = 1, nl_type = ''player'',
                   nl_visible = True\<rparr>;
                foreground_layer =
                  \<lparr>nl_name = ''Foreground'', nl_order_index = 2, nl_type = ''custom'',
                   nl_visible = True\<rparr>;
                scene =
                  \<lparr>ns_name = n, ns_owner_id = user_id req,
                   ns_layers = [background_layer, player_layer, foreground_layer],
                   ns_background_layer = Some 0, ns_foreground_layer = Some 2\<rparr>
            in case commit_scene s new_scene_id new_layer_ids scene of
                 Inl e \<Rightarrow> \<lparr>ret = (Server_error e, 500), db = s, emitted = []\<rparr>
               | Inr s' \<Rightarrow>
                   \<lparr>ret = (Scene_created ''Scene created successfully''
                             new_scene_id n None False, 201),
                    db = s', emitted = []\<rparr>)"

subsection \<open>activate_scene\<close>

text \<open>\<^verbatim>\<open>Scene.query.update({'active': False})\<close> clears the flag of every row, then
  the flag of the selected scene is set and both changes are committed together.\<close>

definition deactivate_all :: "store \<Rightarrow> store" where
  "deactivate_all s = s\<lparr>scenes := map (\<lambda>sc. sc\<lparr>s_active := False\<rparr>) (scenes s)\<rparr>"

definition set_active :: "int \<Rightarrow> store \<Rightarrow> store" where
  "set_active scene_id s =
     s\<lparr>scenes := map (\<lambda>sc. if s_id sc = scene_id then sc\<lparr>s_active := True\<rparr> else sc)
                     (scenes s)\<rparr>"

definition activate_scene :: "sid list \<Rightarrow> store \<Rightarrow> int \<Rightarrow> response outcome" where
  "activate_scene hub s scene_id =
     (case Scene_query_get s scene_id of
        None \<Rightarrow> \<lparr>ret = (Aborted, 404), db = s, emitted = []\<rparr>
      | Some scene \<Rightarrow>
          \<lparr>ret = (Scene_activated ''Scene activated successfully''
                    (s_id scene) (s_name scene) True, 200),
           db = set_active (s_id scene) (deactivate_all s),
           emitted = emit hub ''scene_activated''
                       (Scene_activated_data (s_id scene) (s_name scene)) None\<rparr>)"

text \<open>A sequence of activation requests, one after the other.\<close>

fun activations :: "sid list \<Rightarrow> store \<Rightarrow> int list \<Rightarrow> store" where
  "activations hub s [] = s"
| "activations hub s (scene_id # rest) =
     activations hub (db (activate_scene hub s scene_id)) rest"

definition active_scenes :: "store \<Rightarrow> scene list" where
  "active_scenes s = filter s_active (scenes s)"

text \<open>At most one scene is active: any two active rows are the same scene.\<close>

definition at_most_one_active :: "store \<Rightarrow> bool" where
  "at_most_one_active s =
     list_all (\<lambda>a. list_all (\<lambda>b. s_id a = s_id b) (active_scenes s)) (active_scenes s)"

subsection \<open>handle_token_moved\<close>

text \<open>The \<^verbatim>\<open>UPDATE\<close> a commit issues for a changed token: the row with the token's
  primary key takes the new column values.\<close>

definition Token_update :: "store \<Rightarrow> token \<Rightarrow> store" where
  "Token_update s token =
     s\<lparr>tokens := map (\<lambda>t. if t_id t = t_id token then token else t) (tokens s)\<rparr>"

text \<open>\<^verbatim>\<open>token.x = x\<close> and \<^verbatim>\<open>token.y = y\<close> are assigned whatever
  \<^verbatim>\<open>data.get\<close> returned. The columns \<^verbatim>\<open>x\<close> and \<^verbatim>\<open>y\<close> are
  \<^verbatim>\<open>nullable=False\<close>, so with either of them \<^verbatim>\<open>None\<close> the commit raises
  and the \<^verbatim>\<open>emit\<close> after it is not reached.\<close>

definition handle_token_moved ::
  "sid list \<Rightarrow> sid \<Rightarrow> store \<Rightarrow> token_moved \<Rightarrow> error option outcome" where
  "handle_token_moved hub sid s data =
     (let token_id = tm_token_id data; x = tm_x data; y = tm_y data;
          rotation = tm_rotation data; scale = tm_scale data
      in case Token_query_get s token_id of
           None \<Rightarrow> \<lparr>ret = None, db = s, emitted = []\<rparr>
         | Some token \<Rightarrow>
             (case (x, y) of
                (Some x', Some y') \<Rightarrow>
                  let token1 = token\<lparr>t_x := x', t_y := y'\<rparr>;
                      token2 = (case rotation of None \<Rightarrow> token1
                                | Some r \<Rightarrow> token1\<lparr>t_rotation := r\<rparr>);
                      token3 = (case scale of None \<Rightarrow> token2
                                | Some k \<Rightarrow> token2\<lparr>t_scale := k\<rparr>)
                  in \<lparr>ret = None, db = Token_update s token3,
                      emitted = emit hub ''token_moved'' (Token_moved_data data) (Some sid)\<rparr>
              | _ \<Rightarrow> \<lparr>ret = Some IntegrityError, db = s, emitted = []\<rparr>))"

subsection \<open>handle_drawing_created and handle_text_created\<close>











section \<open>Authentication (auth.py)\<close>

text \<open>\<^verbatim>\<open>verify_password\<close> (Argon2, from passlib) and \<^verbatim>\<open>generate_jwt\<close> (PyJWT,
  the clock and the secret key) are library calls; the model takes them as the
  parameters \<open>verify\<close> and \<open>jwt\<close>.\<close>

definition authenticate_user ::
  "(string \<Rightarrow> string \<Rightarrow> bool) \<Rightarrow> (int \<Rightarrow> string \<Rightarrow> string) \<Rightarrow> store \<Rightarrow> string \<Rightarrow> string
     \<Rightarrow> user option \<times> string option" where
  "authenticate_user verify jwt s username password =
     (case User_by_username s username of
        None \<Rightarrow> (None, None)
      | Some user \<Rightarrow>
          if verify password (u_password_hash user)
          then (Some user, Some (jwt (u_id user) (u_role user)))
          else (None, None))"

text \<open>The login route. \<open>username\<close> and \<open>password\<close> are what \<^verbatim>\<open>data.get\<close>
  returned; \<^verbatim>\<open>not username\<close> holds for \<^verbatim>\<open>None\<close> and for the empty string.
  Past that test both are strings, so the last case of \<open>login\<close> is never taken.\<close>

definition falsy :: "string option \<Rightarrow> bool" where
  "falsy v = (case v of None \<Rightarrow> True | Some str \<Rightarrow> str = [])"

definition login ::
  "(string \<Rightarrow> string \<Rightarrow> bool) \<Rightarrow> (int \<Rightarrow> string \<Rightarrow> string) \<Rightarrow> store
     \<Rightarrow> string option \<Rightarrow> string option \<Rightarrow> response" where
  "login verify jwt s username password =
     (if falsy username \<or> falsy password
      then (Message ''Username and password are required'', 400)
      else case (username, password) of
             (Some u, Some p) \<Rightarrow>
               (case authenticate_user verify jwt s u p of
                  (None, token) \<Rightarrow> (Message ''Invalid credentials'', 401)
                | (Some user, token) \<Rightarrow>
                    (Login_ok token
                       \<lparr>us_id = u_id user, us_username = u_username user,
                        us_role = u_role user\<rparr>, 200))
           | _ \<Rightarrow> (Message ''Username and password are required'', 400))"

section \<open>Notions used in the statements\<close>

text \<open>The layers of a scene-detail response (none for any other response) and the
  child collections of one of them.\<close>

definition response_layers :: "response \<Rightarrow> layer_data list" where
  "response_layers r = (case fst r of Scene_detail sd \<Rightarrow> sd_layers sd | _ \<Rightarrow> [])"

definition children ::
  "layer_data \<Rightarrow> token_data list option \<times> drawing_data list option \<times> text_data list option" where
  "children ld = (ld_tokens ld, ld_drawings ld, ld_text_elements ld)"

text \<open>The layers of a scene that a requester is sent with their children, and the
  condition that none of them has a token on it.\<close>

definition served_with_children :: "request_ctx \<Rightarrow> store \<Rightarrow> scene \<Rightarrow> layer list" where
  "served_with_children req s scene =
     filter (\<lambda>layer. l_type layer = ''player'' \<or> user_role req = ''admin'')
       (scene_layers s scene)"

definition no_token_served :: "request_ctx \<Rightarrow> store \<Rightarrow> scene \<Rightarrow> bool" where
  "no_token_served req s scene =
     list_all (\<lambda>layer. layer_tokens s layer = []) (served_with_children req s scene)"





text \<open>A store that differs from \<open>s\<close> only in the \<open>visible\<close> flags of its layers.\<close>

definition with_visible :: "(layer \<Rightarrow> bool) \<Rightarrow> store \<Rightarrow> store" where
  "with_visible f s = s\<lparr>layers := map (\<lambda>l. l\<lparr>l_visible := f l\<rparr>) (layers s)\<rparr>"

text \<open>The token after the assignments of \<^verbatim>\<open>handle_token_moved\<close>, for a payload
  that carries the position \<open>x\<close>, \<open>y\<close>.\<close>

definition moved_token :: "token \<Rightarrow> token_moved \<Rightarrow> real \<Rightarrow> real \<Rightarrow> token" where
  "moved_token token data x y =
     token\<lparr>t_x := x, t_y := y,
           t_rotation := (case tm_rotation data of None \<Rightarrow> t_rotation token | Some r \<Rightarrow> r),
           t_scale := (case tm_scale data of None \<Rightarrow> t_scale token | Some k \<Rightarrow> k)\<rparr>"

subsection \<open>A small store for concrete runs\<close>

definition demo_store :: store where
  "demo_store =
     \<lparr>users =
        [\<lparr>u_id = 1, u_username = ''admin'', u_password_hash = ''h1'', u_role = ''admin'',
          u_registered_by = None\<rparr>,
         \<lparr>u_id = 2, u_username = ''bob'', u_password_hash = ''h2'', u_role = ''player'',
          u_registered_by = Some 1\<rparr>],
      scenes =
        [\<lparr>s_id = 1, s_name = ''Dungeon'', s_thumbnail_path = None, s_active = True,
          s_owner_id = 1, s_background_layer_id = Some 1, s_foreground_layer_id = Some 3\<rparr>,
         \<lparr>s_id = 2, s_name = ''Forest'', s_thumbnail_path = None, s_active = False,
          s_owner_id = 1, s_background_layer_id = None, s_foreground_layer_id = None\<rparr>],
      layers =
        [\<lparr>l_id = 1, l_scene_id = 1, l_name = ''Background'', l_order_index = 0,
          l_type = ''background'', l_visible = True\<rparr>,
         \<lparr>l_id = 2, l_scene_id = 1, l_name = ''Player'', l_order_index = 1,
          l_type = ''player'', l_visible = False\<rparr>,
         \<lparr>l_id = 3, l_scene_id = 1, l_name = ''Foreground'', l_order_index = 2,
          l_type = ''custom'', l_visible = True\<rparr>],
      tokens =
        [\<lparr>t_id = 5, t_layer_id = 2, t_image_path = ''hero.png'', t_x = 1, t_y = 2,
          t_scale = 1, t_rotation = 90, t_z_index = 0, t_metadata = None\<rparr>,
         \<lparr>t_id = 6, t_layer_id = 1, t_image_path = ''map.png'', t_x = 0, t_y = 0,
          t_scale = 2, t_rotation = 0, t_z_index = 0, t_metadata = None\<rparr>],
      drawings =
        [\<lparr>d_id = 1, d_layer_id = 1, d_type = ''line'', d_points = JArr [JNum 0, JNum 1],
          d_color = ''#ff0000'', d_stroke_width = 2\<rparr>],
      text_elements =
        [\<lparr>te_id = 1, te_layer_id = 2, te_x = 3, te_y = 4, te_text = ''hello'',
          te_font_size = 12, te_color = ''#000000'', te_style = ''bold''\<rparr>],
      backend = PostgreSQL\<rparr>"

text \<open>The same store without tokens.\<close>

definition no_token_store :: store where
  "no_token_store = demo_store\<lparr>tokens := []\<rparr>"

text \<open>The demo store with both scenes marked active, as a database without a
  uniqueness constraint on the flag can hold.\<close>

definition two_active_store :: store where
  "two_active_store =
     demo_store\<lparr>scenes := map (\<lambda>sc. sc\<lparr>s_active := True\<rparr>) (scenes demo_store)\<rparr>"



text \<open>Stand-ins for the two library calls: a hash is the letter h before the
  password, a token names the role.\<close>

definition demo_verify :: "string \<Rightarrow> string \<Rightarrow> bool" where
  "demo_verify password password_hash = (password_hash = ''h'' @ password)"

definition demo_jwt :: "int \<Rightarrow> string \<Rightarrow> string" where
  "demo_jwt uid role = ''token-for-'' @ role"

definition player_req :: request_ctx where
  "player_req = \<lparr>user_id = 2, user_role = ''player''\<rparr>"

definition admin_req :: request_ctx where
  "admin_req = \<lparr>user_id = 1, user_role = ''admin''\<rparr>"

section \<open>Helper facts\<close>

lemma find_id_Some:
  "find (\<lambda>x. f x = i) xs = Some y \<Longrightarrow> f y = i \<and> y \<in> set xs"
  by (induction xs) (auto split: if_splits)

section \<open>Scene visibility\<close>

lemma layer_view_holds_token:
  "(case ld_tokens (layer_view req s layer) of None \<Rightarrow> False | Some ts \<Rightarrow> ts \<noteq> [])
     \<longleftrightarrow> (l_type layer = ''player'' \<or> user_role req = ''admin'')
           \<and> layer_tokens s layer \<noteq> []"
  by (simp add: layer_view_def Let_def)

lemma holds_token_layer_views:
  "holds_token
     \<lparr>sd_id = a, sd_name = b, sd_thumbnail_path = c, sd_active = d,
      sd_layers = map (layer_view req s) (scene_layers s scene)\<rparr>
   \<longleftrightarrow> \<not> no_token_served req s scene"
proof -
  have "holds_token
     \<lparr>sd_id = a, sd_name = b, sd_thumbnail_path = c, sd_active = d,
      sd_layers = map (layer_view req s) (scene_layers s scene)\<rparr>
    \<longleftrightarrow> (\<exists>layer \<in> set (scene_layers s scene).
           (l_type layer = ''player'' \<or> user_role req = ''admin'')
           \<and> layer_tokens s layer \<noteq> [])"
    by (simp add: holds_token_def list_ex_iff layer_view_holds_token)
  also have "\<dots> \<longleftrightarrow> \<not> no_token_served req s scene"
    by (auto simp: no_token_served_def served_with_children_def list_all_iff)
  finally show ?thesis .
qed

lemma get_scene_served:
  assumes "Scene_query_get s scene_id = Some scene"
      and "user_role req = ''admin'' \<or> s_active scene"
      and "no_token_served req s scene"
  shows "get_scene req s scene_id =
           (Scene_detail
              \<lparr>sd_id = s_id scene, sd_name = s_name scene,
               sd_thumbnail_path = s_thumbnail_path scene, sd_active = s_active scene,
               sd_layers = map (layer_view req s) (scene_layers s scene)\<rparr>, 200)"
  using assms by (auto simp: get_scene_def jsonify_scene_def holds_token_layer_views)

lemma get_scene_token_served:
  assumes "Scene_query_get s scene_id = Some scene"
      and "user_role req = ''admin'' \<or> s_active scene"
      and "\<not> no_token_served req s scene"
  shows "get_scene req s scene_id = (Server_error TypeError, 500)"
  using assms by (auto simp: get_scene_def jsonify_scene_def holds_token_layer_views)

lemma get_scene_inactive:
  assumes "Scene_query_get s scene_id = Some scene"
      and "user_role req \<noteq> ''admin''" and "\<not> s_active scene"
  shows "get_scene req s scene_id = (Message ''Scene not found'', 404)"
  using assms by (simp add: get_scene_def)

lemma get_scene_missing:
  "Scene_query_get s scene_id = None \<Longrightarrow> get_scene req s scene_id = (Aborted, 404)"
  by (simp add: get_scene_def)





text \<open>
  C1, as the code has it. Take a scene that is served (the requester is
  \<^verbatim>\<open>'admin'\<close>, or the scene is active) and in which no layer that is sent with its
  children holds a token. Every layer of the scene is returned, in order, with its id,
  name, order_index, type and visible flag. A layer of type \<^verbatim>\<open>'player'\<close>, and for
  an \<^verbatim>\<open>'admin'\<close> requester every layer, carries all its drawings and text elements
  and an empty token list. Any other layer carries no child collection at all: the
  keys \<^verbatim>\<open>tokens\<close>, \<^verbatim>\<open>drawings\<close> and \<^verbatim>\<open>text_elements\<close> are absent, not empty.
  What happens when such a layer holds a token is the subject of C9 and is left out
  here.
\<close>

theorem get_scene_layer_detail:
  assumes "Scene_query_get s scene_id = Some scene"
      and "user_role req = ''admin'' \<or> s_active scene"
      and "no_token_served req s scene"
  shows "\<exists>sd. get_scene req s scene_id = (Scene_detail sd, 200)
       \<and> length (sd_layers sd) = length (scene_layers s scene)
       \<and> (\<forall>i < length (scene_layers s scene).
            let layer = scene_layers s scene ! i; ld = sd_layers sd ! i
            in ld_id ld = l_id layer \<and> ld_name ld = l_name layer
             \<and> ld_order_index ld = l_order_index layer \<and> ld_type ld = l_type layer
             \<and> ld_visible ld = l_visible layer
             \<and> (if user_role req = ''admin'' \<or> l_type layer = ''player''
                then ld_tokens ld = Some []
                   \<and> ld_drawings ld = Some (map drawing_view (layer_drawings s layer))
                   \<and> ld_text_elements ld
                       = Some (map text_view (layer_text_elements s layer))
                else children ld = (None, None, None)))"
proof -
  have tokens: "layer_tokens s (scene_layers s scene ! i) = []"
    if "i < length (scene_layers s scene)"
       "user_role req = ''admin'' \<or> l_type (scene_layers s scene ! i) = ''player''" for i
    using that assms(3)
    by (auto simp: no_token_served_def served_with_children_def list_all_iff)
  show ?thesis
    unfolding get_scene_served [OF assms]
    by (auto simp: layer_view_def Let_def children_def tokens)
qed

text \<open>Scene 1 of the store without tokens has a background layer with a drawing, a
  player layer with a text element and an empty foreground layer.\<close>

theorem get_scene_layer_detail_witness:
  "Scene_query_get no_token_store 1 = Some (hd (scenes no_token_store))
   \<and> s_active (hd (scenes no_token_store)) \<and> user_role player_req \<noteq> ''admin''
   \<and> no_token_served player_req no_token_store (hd (scenes no_token_store))
   \<and> no_token_served admin_req no_token_store (hd (scenes no_token_store))
   \<and> status (get_scene player_req no_token_store 1) = 200
   \<and> map ld_type (response_layers (get_scene player_req no_token_store 1))
       = [''background'', ''player'', ''custom'']
   \<and> map ld_text_elements (response_layers (get_scene player_req no_token_store 1))
       = [None,
          Some [\<lparr>xd_id = 1, xd_x = 3, xd_y = 4, xd_text = ''hello'', xd_font_size = 12,
                 xd_color = ''#000000'', xd_style = ''bold''\<rparr>],
          None]
   \<and> map ld_drawings (response_layers (get_scene player_req no_token_store 1))
       = [None, Some [], None]
   \<and> map ld_drawings (response_layers (get_scene admin_req no_token_store 1))
       = [Some [\<lparr>dd_id = 1, dd_type = ''line'', dd_points = JArr [JNum 0, JNum 1],
                 dd_color = ''#ff0000'', dd_stroke_width = 2\<rparr>],
          Some [], Some []]"
  using get_scene_layer_detail [of no_token_store 1 "hd (scenes no_token_store)" player_req]
        get_scene_layer_detail [of no_token_store 1 "hd (scenes no_token_store)" admin_req]
  by (simp add: get_scene_def jsonify_scene_def holds_token_def layer_view_def
        Scene_query_get_def no_token_store_def demo_store_def
        player_req_def admin_req_def scene_layers_def layer_tokens_def layer_drawings_def
        layer_text_elements_def drawing_view_def text_view_def
        response_layers_def status_def no_token_served_def served_with_children_def)

text \<open>The claim as written fails on the background layer of that scene: the
  player's response holds the layer, and none of its three child collections is the
  empty list.\<close>

theorem get_scene_hidden_children_counterexample:
  "\<exists>sd. get_scene player_req no_token_store 1 = (Scene_detail sd, 200)
      \<and> ld_type (hd (sd_layers sd)) = ''background''
      \<and> ld_id (hd (sd_layers sd)) = 1
      \<and> ld_tokens (hd (sd_layers sd)) \<noteq> Some []
      \<and> ld_drawings (hd (sd_layers sd)) \<noteq> Some []
      \<and> ld_text_elements (hd (sd_layers sd)) \<noteq> Some []"
  by (simp add: get_scene_def jsonify_scene_def holds_token_def layer_view_def
        Scene_query_get_def no_token_store_def demo_store_def player_req_def
        scene_layers_def layer_tokens_def)

text \<open>The \<open>visible\<close> flag is copied into the layer's dictionary and read nowhere
  else: changing flags changes neither the status of a scene fetch nor the child
  collections of any returned layer.\<close>

lemma scene_layers_with_visible:
  "scene_layers (with_visible f s) scene
     = map (\<lambda>l. l\<lparr>l_visible := f l\<rparr>) (scene_layers s scene)"
  by (simp add: scene_layers_def with_visible_def filter_map comp_def)

lemma children_layer_view_with_visible:
  "children (layer_view req (with_visible f s) (layer\<lparr>l_visible := b\<rparr>))
     = children (layer_view req s layer)"
  by (simp add: children_def layer_view_def Let_def layer_tokens_def layer_drawings_def
        layer_text_elements_def with_visible_def)

lemma Scene_query_get_with_visible:
  "Scene_query_get (with_visible f s) scene_id = Scene_query_get s scene_id"
  by (simp add: Scene_query_get_def with_visible_def)

lemma layer_tokens_with_visible:
  "layer_tokens (with_visible f s) (layer\<lparr>l_visible := b\<rparr>) = layer_tokens s layer"
  by (simp add: layer_tokens_def with_visible_def)

lemma no_token_served_with_visible:
  "no_token_served req (with_visible f s) scene = no_token_served req s scene"
  by (simp add: no_token_served_def served_with_children_def scene_layers_with_visible
        filter_map comp_def list_all_iff layer_tokens_with_visible)

lemma get_scene_with_visible:
  "status (get_scene req (with_visible f s) scene_id) = status (get_scene req s scene_id)
   \<and> map children (response_layers (get_scene req (with_visible f s) scene_id))
       = map children (response_layers (get_scene req s scene_id))"
proof (cases "Scene_query_get s scene_id")
  case None
  then show ?thesis
    by (simp add: get_scene_missing Scene_query_get_with_visible)
next
  case (Some scene)
  let ?s' = "with_visible f s"
  have Some': "Scene_query_get ?s' scene_id = Some scene"
    using Some by (simp add: Scene_query_get_with_visible)
  show ?thesis
  proof (cases "user_role req = ''admin'' \<or> s_active scene")
    case False
    then show ?thesis
      using Some Some' by (simp add: get_scene_inactive)
  next
    case served: True
    show ?thesis
    proof (cases "no_token_served req s scene")
      case True
      then have "no_token_served req ?s' scene"
        by (simp add: no_token_served_with_visible)
      then show ?thesis
        using True
        by (simp add: get_scene_served [OF Some served] get_scene_served [OF Some' served]
              status_def response_layers_def scene_layers_with_visible comp_def
              children_layer_view_with_visible)
    next
      case False
      then have "\<not> no_token_served req ?s' scene"
        by (simp add: no_token_served_with_visible)
      then show ?thesis
        using False
        by (simp add: get_scene_token_served [OF Some served]
              get_scene_token_served [OF Some' served])
    qed
  qed
qed

text \<open>
  C9. The code at the failing input. Scene 1 of the demo store is active; its player
  layer 2 has \<open>visible = False\<close> and holds token 5. The claim has the player receive
  the full child detail of that layer. The code builds the token's dictionary with
  \<^verbatim>\<open>token.metadata\<close>, which \<^verbatim>\<open>jsonify\<close> cannot serialise: the answer is the
  error page with status 500 and carries no layer. Setting every flag to true gives the
  same answer, so the flag is indeed not what decides.
\<close>

theorem get_scene_player_layer_token:
  "Scene_query_get demo_store 1 = Some (hd (scenes demo_store))
   \<and> s_active (hd (scenes demo_store))
   \<and> scene_layers demo_store (hd (scenes demo_store)) ! 1
       = \<lparr>l_id = 2, l_scene_id = 1, l_name = ''Player'', l_order_index = 1,
          l_type = ''player'', l_visible = False\<rparr>
   \<and> map t_id (layer_tokens demo_store (scene_layers demo_store (hd (scenes demo_store)) ! 1))
       = [5]
   \<and> get_scene player_req demo_store 1 = (Server_error TypeError, 500)
   \<and> get_scene player_req (with_visible (\<lambda>l. True) demo_store) 1
       = (Server_error TypeError, 500)
   \<and> response_layers (get_scene player_req demo_store 1) = []"
  by (simp add: get_scene_def jsonify_scene_def holds_token_def layer_view_def
        Scene_query_get_def demo_store_def player_req_def scene_layers_def
        layer_tokens_def response_layers_def with_visible_def)

section \<open>Scene activation\<close>

lemma scenes_after_activation:
  assumes "Scene_query_get s scene_id = Some scene"
  shows "scenes (db (activate_scene hub s scene_id))
           = map (\<lambda>sc. sc\<lparr>s_active := (s_id sc = scene_id)\<rparr>) (scenes s)"
proof -
  have "s_id scene = scene_id"
    using assms find_id_Some [of s_id scene_id "scenes s" scene]
    by (simp add: Scene_query_get_def)
  then show ?thesis
    using assms by (simp add: activate_scene_def set_active_def deactivate_all_def comp_def)
qed

lemma activation_of_missing_scene:
  "Scene_query_get s scene_id = None \<Longrightarrow> db (activate_scene hub s scene_id) = s"
  by (simp add: activate_scene_def)

lemma at_most_one_active_after_activation:
  assumes "Scene_query_get s scene_id = Some scene"
  shows "at_most_one_active (db (activate_scene hub s scene_id))"
  by (auto simp: at_most_one_active_def active_scenes_def list_all_iff
        scenes_after_activation [OF assms])

lemma scene_ids_after_activation:
  "map s_id (scenes (db (activate_scene hub s scene_id))) = map s_id (scenes s)"
  by (cases "Scene_query_get s scene_id")
     (simp_all add: activation_of_missing_scene scenes_after_activation comp_def)

lemma Scene_query_get_None_iff:
  "Scene_query_get s i = None \<longleftrightarrow> i \<notin> set (map s_id (scenes s))"
  by (auto simp: Scene_query_get_def find_None_iff)

lemma activation_step_invariant:
  "at_most_one_active s \<or> Scene_query_get s scene_id \<noteq> None
     \<Longrightarrow> at_most_one_active (db (activate_scene hub s scene_id))"
  by (cases "Scene_query_get s scene_id")
     (auto simp: activation_of_missing_scene at_most_one_active_after_activation)

lemma activations_invariant:
  "at_most_one_active s \<or> (\<exists>i \<in> set ids. Scene_query_get s i \<noteq> None)
     \<Longrightarrow> at_most_one_active (activations hub s ids)"
proof (induction ids arbitrary: s)
  case Nil
  then show ?case by simp
next
  case (Cons scene_id rest)
  let ?s' = "db (activate_scene hub s scene_id)"
  have same: "\<And>i. Scene_query_get ?s' i = None \<longleftrightarrow> Scene_query_get s i = None"
    by (simp add: Scene_query_get_None_iff scene_ids_after_activation)
  show ?case
  proof (cases "at_most_one_active s \<or> Scene_query_get s scene_id \<noteq> None")
    case True
    then have "at_most_one_active ?s'" by (rule activation_step_invariant)
    then show ?thesis using Cons.IH [of ?s'] by simp
  next
    case False
    with Cons.prems have "\<exists>i \<in> set rest. Scene_query_get s i \<noteq> None" by auto
    then have "\<exists>i \<in> set rest. Scene_query_get ?s' i \<noteq> None" using same by simp
    then show ?thesis using Cons.IH [of ?s'] by simp
  qed
qed

text \<open>
  C2, as the code has it. An activation request for a scene that does not exist is
  answered 404 and changes nothing, so the invariant needs one of two things: the
  store had at most one active scene to begin with, or at least one request of the
  sequence names an existing scene. Then at most one scene is active after the
  sequence. An activation of an existing scene clears the flag of every scene and then
  sets it on the target: afterwards a scene is active exactly when it is the target,
  which deactivates the scene that was active before.
\<close>

theorem activations_at_most_one_active:
  "(at_most_one_active s \<or> (\<exists>i \<in> set ids. Scene_query_get s i \<noteq> None)
      \<longrightarrow> at_most_one_active (activations hub s ids))
   \<and> (\<forall>scene. Scene_query_get s scene_id = Some scene \<longrightarrow>
         db (activate_scene hub s scene_id) = set_active scene_id (deactivate_all s)
       \<and> at_most_one_active (db (activate_scene hub s scene_id))
       \<and> (\<forall>sc \<in> set (scenes (db (activate_scene hub s scene_id))).
             s_active sc \<longleftrightarrow> s_id sc = scene_id)
       \<and> map s_id (active_scenes (db (activate_scene hub s scene_id)))
           = filter (\<lambda>i. i = scene_id) (map s_id (scenes s)))"
proof -
  have seq: "at_most_one_active s \<or> (\<exists>i \<in> set ids. Scene_query_get s i \<noteq> None)
      \<longrightarrow> at_most_one_active (activations hub s ids)"
    using activations_invariant [of s ids hub] by blast
  have one: "db (activate_scene hub s scene_id) = set_active scene_id (deactivate_all s)
       \<and> at_most_one_active (db (activate_scene hub s scene_id))
       \<and> (\<forall>sc \<in> set (scenes (db (activate_scene hub s scene_id))).
             s_active sc \<longleftrightarrow> s_id sc = scene_id)
       \<and> map s_id (active_scenes (db (activate_scene hub s scene_id)))
           = filter (\<lambda>i. i = scene_id) (map s_id (scenes s))"
    if found: "Scene_query_get s scene_id = Some scene" for scene
  proof -
    have "s_id scene = scene_id"
      using found find_id_Some [of s_id scene_id "scenes s" scene]
      by (simp add: Scene_query_get_def)
    then have a: "db (activate_scene hub s scene_id) = set_active scene_id (deactivate_all s)"
      using found by (simp add: activate_scene_def)
    have b: "at_most_one_active (db (activate_scene hub s scene_id))"
      using found by (rule at_most_one_active_after_activation)
    have c: "\<forall>sc \<in> set (scenes (db (activate_scene hub s scene_id))).
             s_active sc \<longleftrightarrow> s_id sc = scene_id"
      by (auto simp: scenes_after_activation [OF found])
    have d: "map s_id (active_scenes (db (activate_scene hub s scene_id)))
           = filter (\<lambda>i. i = scene_id) (map s_id (scenes s))"
      by (simp add: active_scenes_def scenes_after_activation [OF found] filter_map comp_def)
    from a b c d show ?thesis by blast
  qed
  from seq one show ?thesis by blast
qed

text \<open>From the store with two active scenes, the requests 7 (missing), 2, 1 and
  9 (missing) leave scene 1 as the only active one.\<close>

theorem activations_at_most_one_active_witness:
  "at_most_one_active demo_store
   \<and> Scene_query_get two_active_store 2 \<noteq> None
   \<and> \<not> at_most_one_active two_active_store
   \<and> at_most_one_active (activations [''A'', ''B''] two_active_store [7, 2, 1, 9])
   \<and> map s_id (active_scenes (activations [''A'', ''B''] two_active_store [7, 2, 1, 9])) = [1]
   \<and> map s_id (active_scenes (db (activate_scene [''A'', ''B''] two_active_store 2))) = [2]"
  using activations_at_most_one_active [of two_active_store "[7, 2, 1, 9]" "[''A'', ''B'']" 2]
  by (simp add: at_most_one_active_def active_scenes_def two_active_store_def demo_store_def
        activate_scene_def Scene_query_get_def set_active_def deactivate_all_def)

text \<open>The claim as written fails for a store that holds two active scenes when the
  only request names a missing scene (or when there is no request at all): both
  scenes stay active.\<close>

theorem activations_two_active_counterexample:
  "\<not> at_most_one_active (activations [''A'', ''B''] two_active_store [7])
   \<and> \<not> at_most_one_active (activations [''A'', ''B''] two_active_store [])
   \<and> map s_id (active_scenes (activations [''A'', ''B''] two_active_store [7])) = [1, 2]
   \<and> status (ret (activate_scene [''A'', ''B''] two_active_store 7)) = 404"
  by (simp add: at_most_one_active_def active_scenes_def two_active_store_def demo_store_def
        activate_scene_def Scene_query_get_def status_def)

section \<open>Token movement\<close>

lemma handle_token_moved_found:
  assumes "Token_query_get s (tm_token_id data) = Some token"
      and "tm_x data = Some x" and "tm_y data = Some y"
  shows "handle_token_moved hub sid s data =
           \<lparr>ret = None, db = Token_update s (moved_token token data x y),
            emitted = emit hub ''token_moved'' (Token_moved_data data) (Some sid)\<rparr>"
  using assms
  by (simp add: handle_token_moved_def moved_token_def Let_def split: option.splits)

lemma handle_token_moved_rejected:
  assumes "Token_query_get s (tm_token_id data) = Some token"
      and "tm_x data = None \<or> tm_y data = None"
  shows "handle_token_moved hub sid s data = \<lparr>ret = Some IntegrityError, db = s, emitted = []\<rparr>"
  using assms
  by (auto simp: handle_token_moved_def Let_def split: option.splits)

lemma Token_query_get_id:
  "Token_query_get s token_id = Some token \<Longrightarrow> token_id = Some (t_id token)"
  using find_id_Some [of t_id _ "tokens s" token]
  by (auto simp: Token_query_get_def split: option.splits)

lemma find_after_update:
  "t_id token' = i \<Longrightarrow>
   find (\<lambda>t. t_id t = i) (map (\<lambda>t. if t_id t = i then token' else t) ts)
     = (case find (\<lambda>t. t_id t = i) ts of None \<Rightarrow> None | Some _ \<Rightarrow> Some token')"
  by (induction ts) auto

lemma Token_query_get_after_update:
  assumes "Token_query_get s token_id = Some token" and "t_id token' = t_id token"
  shows "Token_query_get (Token_update s token') token_id = Some token'"
  using assms Token_query_get_id [OF assms(1)] find_after_update [of token' "t_id token" "tokens s"]
  by (simp add: Token_query_get_def Token_update_def)

lemma Token_update_twice:
  "Token_update (Token_update s token) token = Token_update s token"
  by (simp add: Token_update_def comp_def)

lemma moved_token_twice:
  "moved_token (moved_token token data x y) data x y = moved_token token data x y"
  by (simp add: moved_token_def split: option.splits)

lemma moved_token_id: "t_id (moved_token token data x y) = t_id token"
  by (simp add: moved_token_def)

text \<open>
  C4. When the \<open>token_id\<close> of a \<^verbatim>\<open>token_moved\<close> event names no token (or is
  missing), the handler returns normally without raising, delivers no message to any
  client and leaves the store as it was.
\<close>

theorem token_moved_unknown_token:
  assumes "Token_query_get s (tm_token_id data) = None"
  shows "handle_token_moved hub sid s data = \<lparr>ret = None, db = s, emitted = []\<rparr>"
  using assms by (simp add: handle_token_moved_def Let_def)

text \<open>The demo store has no token 99.\<close>

theorem token_moved_unknown_token_witness:
  "Token_query_get demo_store (Some 99) = None
   \<and> handle_token_moved [''A'', ''B''] ''A'' demo_store
        \<lparr>tm_token_id = Some 99, tm_x = Some 10, tm_y = Some 20, tm_rotation = None,
         tm_scale = None\<rparr>
      = \<lparr>ret = None, db = demo_store, emitted = []\<rparr>
   \<and> handle_token_moved [''A'', ''B''] ''A'' demo_store
        \<lparr>tm_token_id = None, tm_x = Some 10, tm_y = Some 20, tm_rotation = None,
         tm_scale = None\<rparr>
      = \<lparr>ret = None, db = demo_store, emitted = []\<rparr>"
  using token_moved_unknown_token [of demo_store
          "\<lparr>tm_token_id = Some 99, tm_x = Some 10, tm_y = Some 20, tm_rotation = None,
            tm_scale = None\<rparr>" "[''A'', ''B'']" "''A''"]
        token_moved_unknown_token [of demo_store
          "\<lparr>tm_token_id = None, tm_x = Some 10, tm_y = Some 20, tm_rotation = None,
            tm_scale = None\<rparr>" "[''A'', ''B'']" "''A''"]
  by (simp add: Token_query_get_def demo_store_def)

text \<open>
  C8. Handling the same \<^verbatim>\<open>token_moved\<close> event a second time, on the store the first
  handling left, gives that same store again: the token keeps the state of the first
  application and no other row of any table changes. This holds for every store and
  every payload, whether or not the token exists.
\<close>

theorem token_moved_twice:
  "db (handle_token_moved hub sid (db (handle_token_moved hub sid s data)) data)
     = db (handle_token_moved hub sid s data)"
proof (cases "Token_query_get s (tm_token_id data)")
  case None
  then show ?thesis by (simp add: handle_token_moved_def Let_def)
next
  case (Some token)
  show ?thesis
  proof (cases "tm_x data = None \<or> tm_y data = None")
    case True
    then show ?thesis using Some by (simp add: handle_token_moved_rejected)
  next
    case False
    then obtain x y where xy: "tm_x data = Some x" "tm_y data = Some y" by auto
    let ?token' = "moved_token token data x y"
    have first: "db (handle_token_moved hub sid s data) = Token_update s ?token'"
      using Some xy by (simp add: handle_token_moved_found)
    have "Token_query_get (Token_update s ?token') (tm_token_id data) = Some ?token'"
      using Some by (rule Token_query_get_after_update) (rule moved_token_id)
    then have "db (handle_token_moved hub sid (Token_update s ?token') data)
                 = Token_update (Token_update s ?token') (moved_token ?token' data x y)"
      using xy by (simp add: handle_token_moved_found)
    then show ?thesis
      by (simp add: first moved_token_twice Token_update_twice)
  qed
qed






section \<open>Drawings and text elements\<close>













section \<open>Scene creation\<close>

text \<open>
  C6. The code at the failing inputs. For every non-empty name, whatever the store and
  the requester, the commit of \<open>create_scene\<close> raises
  \<open>CircularDependencyError\<close>: the route answers 500, not 201, and the store has
  neither the scene nor any of the three layers the claim describes.
\<close>

theorem create_scene_commit_raises:
  assumes "n \<noteq> []"
  shows "create_scene req new_scene_id new_layer_ids s (Some n)
           = \<lparr>ret = (Server_error CircularDependencyError, 500), db = s, emitted = []\<rparr>"
  using assms
  by (simp add: create_scene_def commit_scene_def insert_order_cycle_def Let_def)

text \<open>Creating "Dungeon" in the demo store.\<close>

theorem create_scene_commit_raises_witness:
  "''Dungeon'' \<noteq> []
   \<and> create_scene admin_req 3 [4, 5, 6] demo_store (Some ''Dungeon'')
       = \<lparr>ret = (Server_error CircularDependencyError, 500), db = demo_store, emitted = []\<rparr>
   \<and> scenes (db (create_scene admin_req 3 [4, 5, 6] demo_store (Some ''Dungeon'')))
       = scenes demo_store
   \<and> layers (db (create_scene admin_req 3 [4, 5, 6] demo_store (Some ''Dungeon'')))
       = layers demo_store
   \<and> status (ret (create_scene admin_req 3 [4, 5, 6] demo_store (Some ''Dungeon''))) \<noteq> 201"
  using create_scene_commit_raises [of "''Dungeon''" admin_req 3 "[4, 5, 6]" demo_store]
  by (simp add: status_def)

section \<open>Login\<close>

text \<open>
  C7. \<^verbatim>\<open>authenticate_user\<close> fails exactly when the username is unknown or the
  password does not verify against the user's hash, and every failure returns the pair
  (None, None). \<^verbatim>\<open>login\<close> then answers with a response that depends on the
  submitted strings only: 401 with the message "Invalid credentials" (400 when one of
  the two strings is empty, which is decided before any lookup). So for the same
  username and password, a store without the user and a store where the user has
  another password give the same result and the same response.
\<close>

theorem authentication_failures_alike:
  "(fst (authenticate_user verify jwt s username password) = None
      \<longleftrightarrow> User_by_username s username = None
        \<or> (\<exists>user. User_by_username s username = Some user
              \<and> \<not> verify password (u_password_hash user)))
   \<and> (fst (authenticate_user verify jwt s username password) = None
      \<longrightarrow> authenticate_user verify jwt s username password = (None, None)
        \<and> login verify jwt s (Some username) (Some password)
            = (if username = [] \<or> password = []
               then (Message ''Username and password are required'', 400)
               else (Message ''Invalid credentials'', 401)))
   \<and> (fst (authenticate_user verify jwt s username password) = None
      \<and> fst (authenticate_user verify' jwt' s' username password) = None
      \<longrightarrow> authenticate_user verify jwt s username password
            = authenticate_user verify' jwt' s' username password
        \<and> login verify jwt s (Some username) (Some password)
            = login verify' jwt' s' (Some username) (Some password))"
proof -
  have cause: "fst (authenticate_user verify jwt s username password) = None
      \<longleftrightarrow> User_by_username s username = None
        \<or> (\<exists>user. User_by_username s username = Some user
              \<and> \<not> verify password (u_password_hash user))"
    by (cases "User_by_username s username") (simp_all add: authenticate_user_def)
  have none: "authenticate_user v j st username password = (None, None)"
    if "fst (authenticate_user v j st username password) = None" for v j st
    using that
    by (cases "User_by_username st username")
       (simp_all add: authenticate_user_def split: if_splits)
  have resp: "login v j st (Some username) (Some password)
            = (if username = [] \<or> password = []
               then (Message ''Username and password are required'', 400)
               else (Message ''Invalid credentials'', 401))"
    if "fst (authenticate_user v j st username password) = None" for v j st
    by (simp add: login_def falsy_def none [OF that])
  have one: "fst (authenticate_user verify jwt s username password) = None
      \<longrightarrow> authenticate_user verify jwt s username password = (None, None)
        \<and> login verify jwt s (Some username) (Some password)
            = (if username = [] \<or> password = []
               then (Message ''Username and password are required'', 400)
               else (Message ''Invalid credentials'', 401))"
    using none [of verify jwt s] resp [of verify jwt s] by blast
  have two: "fst (authenticate_user verify jwt s username password) = None
      \<and> fst (authenticate_user verify' jwt' s' username password) = None
      \<longrightarrow> authenticate_user verify jwt s username password
            = authenticate_user verify' jwt' s' username password
        \<and> login verify jwt s (Some username) (Some password)
            = login verify' jwt' s' (Some username) (Some password)"
  proof (intro impI, elim conjE)
    assume f: "fst (authenticate_user verify jwt s username password) = None"
       and f': "fst (authenticate_user verify' jwt' s' username password) = None"
    show "authenticate_user verify jwt s username password
            = authenticate_user verify' jwt' s' username password
        \<and> login verify jwt s (Some username) (Some password)
            = login verify' jwt' s' (Some username) (Some password)"
      by (simp only: none [OF f] none [OF f'] resp [OF f] resp [OF f'])
  qed
  from cause one two show ?thesis by blast
qed

text \<open>The password "wrong" for the existing user bob, and the same credentials
  against a store with no users.\<close>

theorem authentication_failures_alike_witness:
  "User_by_username demo_store ''bob'' \<noteq> None
   \<and> User_by_username (demo_store\<lparr>users := []\<rparr>) ''bob'' = None
   \<and> authenticate_user demo_verify demo_jwt demo_store ''bob'' ''wrong'' = (None, None)
   \<and> authenticate_user demo_verify demo_jwt (demo_store\<lparr>users := []\<rparr>) ''bob'' ''wrong''
       = (None, None)
   \<and> login demo_verify demo_jwt demo_store (Some ''bob'') (Some ''wrong'')
       = (Message ''Invalid credentials'', 401)
   \<and> login demo_verify demo_jwt (demo_store\<lparr>users := []\<rparr>) (Some ''bob'') (Some ''wrong'')
       = (Message ''Invalid credentials'', 401)
   \<and> status (login demo_verify demo_jwt demo_store (Some ''bob'') (Some ''2'')) = 200"
  using authentication_failures_alike [of demo_verify demo_jwt demo_store "''bob''" "''wrong''"
          demo_verify demo_jwt "demo_store\<lparr>users := []\<rparr>"]
  by (simp add: authenticate_user_def login_def falsy_def User_by_username_def
        demo_store_def demo_verify_def demo_jwt_def status_def)

end
